theory Spec2Isabelle
  imports
    Main
    "HOL-Library.Word"
    "HOL-Library.Char_ord"
    "HOL-Library.List_Lexorder"
begin

section \<open>FetchSourceContext\<close>

text \<open>
  The Go struct \<^verbatim>\<open>FetchSourceContext\<close> has four unexported fields. Its methods have a
  pointer receiver, mutate the receiver in place and (the chainable ones) return that
  same pointer; here each method is a function from the receiver's state before the call
  to its state after it, and the pointer a chainable method returns is the receiver, so
  the state it returns is the state the next call of a chain starts from.

  A Go slice of strings is a list of strings; \<^verbatim>\<open>append(xs, ys...)\<close> is \<open>xs @ ys\<close>
  (a nil slice and an empty one are not told apart: both are \<open>[]\<close>). A variadic
  parameter \<^verbatim>\<open>names ...string\<close> is the list of the arguments. The field
  \<^verbatim>\<open>includes\<close> is written \<open>includes'\<close>, the plain name being reserved in Isabelle.
\<close>

record FetchSourceContext =
  fetchSource :: bool
  transformSource :: bool
  includes' :: "string list"
  excludes :: "string list"

text \<open>
  \<^verbatim>\<open>Source()\<close> returns an \<^verbatim>\<open>interface{}\<close> that holds either a \<^verbatim>\<open>bool\<close> or a
  \<^verbatim>\<open>map[string]interface{}\<close> whose values are the two string slices.
\<close>

datatype source_value =
  SourceBool bool
| SourceMap "string \<rightharpoonup> string list"

definition NewFetchSourceContext :: "bool \<Rightarrow> FetchSourceContext" where
  "NewFetchSourceContext fs =
     \<lparr>fetchSource = fs, transformSource = False, includes' = [], excludes = []\<rparr>"

definition FetchSource :: "FetchSourceContext \<Rightarrow> bool" where
  "FetchSource fsc = fetchSource fsc"

definition SetFetchSource :: "bool \<Rightarrow> FetchSourceContext \<Rightarrow> FetchSourceContext" where
  "SetFetchSource fs fsc = fsc\<lparr>fetchSource := fs\<rparr>"

definition Include :: "string list \<Rightarrow> FetchSourceContext \<Rightarrow> FetchSourceContext" where
  "Include incs fsc = fsc\<lparr>includes' := includes' fsc @ incs\<rparr>"

definition Exclude :: "string list \<Rightarrow> FetchSourceContext \<Rightarrow> FetchSourceContext" where
  "Exclude excs fsc = fsc\<lparr>excludes := excludes fsc @ excs\<rparr>"

definition TransformSource :: "bool \<Rightarrow> FetchSourceContext \<Rightarrow> FetchSourceContext" where
  "TransformSource ts fsc = fsc\<lparr>transformSource := ts\<rparr>"

definition Source :: "FetchSourceContext \<Rightarrow> source_value" where
  "Source fsc =
     (if \<not> fetchSource fsc then SourceBool False
      else SourceMap [''includes'' \<mapsto> includes' fsc, ''excludes'' \<mapsto> excludes fsc])"

text \<open>
  A sequence of calls of the two additive methods on one context, run in order:
  \<^verbatim>\<open>fsc.Include("x").Exclude("c").Include("y")\<close> is
  \<open>[CallInclude [''x''], CallExclude [''c''], CallInclude [''y'']]\<close>.
\<close>

datatype fsc_call = CallInclude "string list" | CallExclude "string list"

fun apply_call :: "FetchSourceContext \<Rightarrow> fsc_call \<Rightarrow> FetchSourceContext" where
  "apply_call fsc (CallInclude incs) = Include incs fsc"
| "apply_call fsc (CallExclude excs) = Exclude excs fsc"

definition chain :: "FetchSourceContext \<Rightarrow> fsc_call list \<Rightarrow> FetchSourceContext" where
  "chain fsc calls = foldl apply_call fsc calls"

fun include_args :: "fsc_call \<Rightarrow> string list" where
  "include_args (CallInclude incs) = incs"
| "include_args (CallExclude excs) = []"

fun exclude_args :: "fsc_call \<Rightarrow> string list" where
  "exclude_args (CallInclude incs) = []"
| "exclude_args (CallExclude excs) = excs"

section \<open>CountService\<close>

subsection \<open>Values of the Go standard library\<close>

text \<open>
  A Go \<^verbatim>\<open>error\<close> is opaque to \<^verbatim>\<open>Do\<close>: it is passed on as it is. It is modelled by
  its message; a nil error is \<open>None\<close> of \<open>error option\<close>. \<^verbatim>\<open>int64\<close> is a 64-bit word.
\<close>

datatype error = Error string

type_synonym int64 = "64 word"

text \<open>\<^verbatim>\<open>strings.Join(a, sep)\<close>.\<close>

fun strings_Join :: "string list \<Rightarrow> string \<Rightarrow> string" where
  "strings_Join [] sep = []"
| "strings_Join [x] sep = x"
| "strings_Join (x # y # ys) sep = x @ sep @ strings_Join (y # ys) sep"

text \<open>\<^verbatim>\<open>fmt.Sprintf("%v", b)\<close> for a \<^verbatim>\<open>bool\<close>.\<close>

definition Sprintf_v :: "bool \<Rightarrow> string" where
  "Sprintf_v b = (if b then ''true'' else ''false'')"

text \<open>
  \<^verbatim>\<open>url.Values\<close> is a \<^verbatim>\<open>map[string][]string\<close>; it is kept as an association list with
  distinct keys, since \<^verbatim>\<open>Encode\<close> walks the keys (in sorted order) and \<^verbatim>\<open>len\<close> counts
  them. \<^verbatim>\<open>Set\<close> replaces what the key held by the one value. \<^verbatim>\<open>QueryEscape\<close> keeps
  letters, digits and \<^verbatim>\<open>- _ . ~\<close>, writes a space as \<^verbatim>\<open>+\<close> and every other byte as
  \<^verbatim>\<open>%XX\<close>.
\<close>

type_synonym Values = "(string \<times> string list) list"

definition Values_Set :: "string \<Rightarrow> string \<Rightarrow> Values \<Rightarrow> Values" where
  "Values_Set key val v = (key, [val]) # filter (\<lambda>kv. fst kv \<noteq> key) v"

definition shouldEscape :: "char \<Rightarrow> bool" where
  "shouldEscape c =
     (if (CHR ''a'' \<le> c \<and> c \<le> CHR ''z'') \<or> (CHR ''A'' \<le> c \<and> c \<le> CHR ''Z'')
         \<or> (CHR ''0'' \<le> c \<and> c \<le> CHR ''9'') then False
      else if c \<in> set ''-_.~'' then False
      else True)"

definition hexdigit :: "nat \<Rightarrow> char" where
  "hexdigit n = ''0123456789ABCDEF'' ! n"

definition escape_byte :: "char \<Rightarrow> string" where
  "escape_byte c =
     (if shouldEscape c then
        (if c = CHR '' '' then ''+''
         else [CHR ''%'', hexdigit (of_char c div 16), hexdigit (of_char c mod 16)])
      else [c])"

definition QueryEscape :: "string \<Rightarrow> string" where
  "QueryEscape s = concat (map escape_byte s)"

definition Values_Encode :: "Values \<Rightarrow> string" where
  "Values_Encode v =
     strings_Join
       (concat (map (\<lambda>kv. map (\<lambda>x. QueryEscape (fst kv) @ ''='' @ QueryEscape x) (snd kv))
                    (sort_key fst v)))
       ''&''"

subsection \<open>The service and its collaborators\<close>

text \<open>
  \<^verbatim>\<open>CountResult\<close>: the type \<^verbatim>\<open>shardsInfo\<close> is declared elsewhere in the package and no
  claim reads it, so it is a type parameter.
\<close>

record 'sh CountResult =
  Count :: int64
  Shards :: 'sh

text \<open>
  \<^verbatim>\<open>Client\<close> is declared elsewhere in the package. \<^verbatim>\<open>Do\<close> uses two things of it: the
  method \<^verbatim>\<open>NewRequest(method, urls)\<close> and the HTTP client \<^verbatim>\<open>c\<close>, whose
  \<^verbatim>\<open>Do(req)\<close> sends a request and returns a response or an error. Both are taken as
  they are, with the request type \<open>'req\<close> and the response type \<open>'res\<close> left open.
\<close>

record ('req, 'res) Client =
  NewRequest :: "string \<Rightarrow> string \<Rightarrow> error + 'req"
  c_Do :: "'req \<Rightarrow> error + 'res"

text \<open>
  The struct \<^verbatim>\<open>CountService\<close>. \<^verbatim>\<open>client\<close> is a pointer (\<open>None\<close> is nil); \<^verbatim>\<open>query\<close>
  is a value of the interface \<^verbatim>\<open>Query\<close> (\<open>None\<close> is the nil interface), of an open type
  \<open>'q\<close> of query objects.
\<close>

record ('q, 'req, 'res) CountService =
  client :: "('req, 'res) Client option"
  indices :: "string list"
  types :: "string list"
  query :: "'q option"
  debug :: bool
  pretty :: bool

text \<open>
  The functions \<^verbatim>\<open>Do\<close> calls that are neither in its file nor in the record above:
  \<^item> \<^verbatim>\<open>uritemplates.Expand(template, values)\<close>, which returns a string or an error;
  \<^item> \<^verbatim>\<open>Source()\<close> of the interface \<^verbatim>\<open>Query\<close>, which returns a value of an open type
    \<open>'j\<close> of things to be written as JSON;
  \<^item> \<^verbatim>\<open>req.SetBodyJson(data)\<close>, a method of the request that changes the request
    through its pointer; it is given the request before the call and returns the request
    after it, together with whatever error value the method itself returns;
  \<^item> \<^verbatim>\<open>httputil.DumpRequestOut\<close> and \<^verbatim>\<open>httputil.DumpResponse\<close>, whose text is printed
    (their error is dropped by \<^verbatim>\<open>out, _ :=\<close>);
  \<^item> \<^verbatim>\<open>checkResponse(res)\<close>, which returns an error or nil;
  \<^item> \<^verbatim>\<open>json.NewDecoder(res.Body).Decode(ret)\<close> on the fresh \<^verbatim>\<open>new(CountResult)\<close>: it
    returns what \<^verbatim>\<open>*ret\<close> holds after the call, and the error or nil.
\<close>

record ('q, 'j, 'req, 'res, 'sh) collaborators =
  Expand :: "string \<Rightarrow> (string \<rightharpoonup> string) \<Rightarrow> error + string"
  querySource :: "'q \<Rightarrow> 'j"
  SetBodyJson :: "'req \<Rightarrow> (string \<rightharpoonup> 'j) \<Rightarrow> 'req \<times> error option"
  DumpRequestOut :: "'req \<Rightarrow> string"
  checkResponse :: "'res \<Rightarrow> error option"
  DumpResponse :: "'res \<Rightarrow> string"
  Decode :: "'res \<Rightarrow> 'sh CountResult \<times> error option"

subsection \<open>The builder methods\<close>

definition NewCountService :: "('req, 'res) Client option \<Rightarrow> ('q, 'req, 'res) CountService" where
  "NewCountService cl =
     \<lparr>client = cl, indices = [], types = [], query = None, debug = False, pretty = False\<rparr>"

definition Index :: "string \<Rightarrow> ('q, 'req, 'res) CountService \<Rightarrow> ('q, 'req, 'res) CountService" where
  "Index index s = s\<lparr>indices := indices s @ [index]\<rparr>"

definition Indices :: "string list \<Rightarrow> ('q, 'req, 'res) CountService \<Rightarrow> ('q, 'req, 'res) CountService" where
  "Indices idxs s = s\<lparr>indices := indices s @ idxs\<rparr>"

definition Type :: "string \<Rightarrow> ('q, 'req, 'res) CountService \<Rightarrow> ('q, 'req, 'res) CountService" where
  "Type typ s = s\<lparr>types := types s @ [typ]\<rparr>"

definition Types :: "string list \<Rightarrow> ('q, 'req, 'res) CountService \<Rightarrow> ('q, 'req, 'res) CountService" where
  "Types typs s = s\<lparr>types := types s @ typs\<rparr>"

definition Query :: "'q option \<Rightarrow> ('q, 'req, 'res) CountService \<Rightarrow> ('q, 'req, 'res) CountService" where
  "Query q s = s\<lparr>query := q\<rparr>"

definition Pretty :: "bool \<Rightarrow> ('q, 'req, 'res) CountService \<Rightarrow> ('q, 'req, 'res) CountService" where
  "Pretty p s = s\<lparr>pretty := p\<rparr>"

definition Debug :: "bool \<Rightarrow> ('q, 'req, 'res) CountService \<Rightarrow> ('q, 'req, 'res) CountService" where
  "Debug d s = s\<lparr>debug := d\<rparr>"

subsection \<open>Do\<close>

text \<open>
  What one call of \<^verbatim>\<open>Do\<close> does, seen from outside: it returns a pair of an
  \<^verbatim>\<open>int64\<close> and an error (or it panics, on a nil client), it hands requests to the HTTP
  client, and it prints. \<open>line\<close> is the line of \<^verbatim>\<open>count.go\<close> of the \<^verbatim>\<open>return\<close> statement
  that ended the call (of the call that panicked, for a panic).
\<close>

datatype returned = Return int64 "error option" | Panic

record 'req run =
  result :: returned
  line :: nat
  sent :: "'req list"
  printed :: "string list"

text \<open>
  Lines 100--109 and 115--124: the loop over the names, expanding each and appending
  the expansion to the part built so far; the first error ends \<^verbatim>\<open>Do\<close>.
\<close>

fun expand_range :: "(string \<Rightarrow> error + string) \<Rightarrow> string list \<Rightarrow> string list \<Rightarrow> error + string list" where
  "expand_range f [] part = Inr part"
| "expand_range f (name # names) part =
     (case f name of
        Inl err \<Rightarrow> Inl err
      | Inr name' \<Rightarrow> expand_range f names (part @ [name']))"

text \<open>
  Lines 96--130: the path. The result is the string \<^verbatim>\<open>urls\<close> after line 130, or the
  line and the error of the \<^verbatim>\<open>return 0, err\<close> taken.
\<close>

definition build_path ::
  "('q, 'j, 'req, 'res, 'sh) collaborators \<Rightarrow> ('q, 'req, 'res) CountService \<Rightarrow> (nat \<times> error) + string" where
  "build_path env s =
     (let urls = ''/'' in
      case expand_range (\<lambda>index. Expand env ''{index}'' [''index'' \<mapsto> index]) (indices s) [] of
        Inl err \<Rightarrow> Inl (106, err)
      | Inr indexPart \<Rightarrow>
          (let urls = (if length indexPart > 0 then urls @ strings_Join indexPart '','' else urls) in
           case expand_range (\<lambda>typ. Expand env ''{type}'' [''type'' \<mapsto> typ]) (types s) [] of
             Inl err \<Rightarrow> Inl (121, err)
           | Inr typesPart \<Rightarrow>
               (let urls = (if length typesPart > 0
                            then urls @ ''/'' @ strings_Join typesPart '','' else urls)
                in Inr (urls @ ''/_count''))))"

text \<open>Lines 132--136: the query-string parameters.\<close>

definition build_params :: "('q, 'req, 'res) CountService \<Rightarrow> Values" where
  "build_params s =
     (let params = [] in
      if pretty s then Values_Set ''pretty'' (Sprintf_v (pretty s)) params else params)"

text \<open>Lines 96--139: the string \<^verbatim>\<open>urls\<close> given to \<^verbatim>\<open>NewRequest\<close>.\<close>

definition build_urls ::
  "('q, 'j, 'req, 'res, 'sh) collaborators \<Rightarrow> ('q, 'req, 'res) CountService \<Rightarrow> (nat \<times> error) + string" where
  "build_urls env s =
     (case build_path env s of
        Inl stop \<Rightarrow> Inl stop
      | Inr urls \<Rightarrow>
          (let params = build_params s in
           Inr (if length params > 0 then urls @ ''?'' @ Values_Encode params else urls)))"

text \<open>
  Lines 147--152: the body. The statement \<^verbatim>\<open>req.SetBodyJson(query)\<close> uses nothing the
  method returns: the request goes on as the method left it.
\<close>

definition set_body ::
  "('q, 'j, 'req, 'res, 'sh) collaborators \<Rightarrow> ('q, 'req, 'res) CountService \<Rightarrow> 'req \<Rightarrow> 'req" where
  "set_body env s req =
     (case query s of
        None \<Rightarrow> req
      | Some q \<Rightarrow> fst (SetBodyJson env req [''query'' \<mapsto> querySource env q]))"

text \<open>Lines 154--157 and 169--172: what \<^verbatim>\<open>fmt.Printf("%s\n", string(out))\<close> prints.\<close>

definition dump :: "bool \<Rightarrow> string \<Rightarrow> string list" where
  "dump dbg out = (if dbg then [out @ [CHR 0x0A]] else [])"

text \<open>
  Lines 164--183, with the response in hand. \<^verbatim>\<open>ret\<close> is the pointer \<^verbatim>\<open>new(CountResult)\<close>
  gives, which is not nil, and \<^verbatim>\<open>Decode\<close> writes through it; \<open>None\<close> would be a nil
  \<^verbatim>\<open>ret\<close>. (\<^verbatim>\<open>defer res.Body.Close()\<close> changes nothing \<^verbatim>\<open>Do\<close> returns.)
\<close>

definition receive ::
  "('q, 'j, 'req, 'res, 'sh) collaborators \<Rightarrow> ('q, 'req, 'res) CountService \<Rightarrow> 'req \<Rightarrow> string list \<Rightarrow> 'res
     \<Rightarrow> 'req run" where
  "receive env s req out res =
     (case checkResponse env res of
        Some err \<Rightarrow> \<lparr>result = Return 0 (Some err), line = 165, sent = [req], printed = out\<rparr>
      | None \<Rightarrow>
          (let out = out @ dump (debug s) (DumpResponse env res);
               decoded = Decode env res;
               ret = Some (fst decoded)
           in case snd decoded of
                Some err \<Rightarrow> \<lparr>result = Return 0 (Some err), line = 176, sent = [req], printed = out\<rparr>
              | None \<Rightarrow>
                  (case ret of
                     Some r \<Rightarrow> \<lparr>result = Return (Count r) None, line = 180, sent = [req], printed = out\<rparr>
                   | None \<Rightarrow> \<lparr>result = Return 0 None, line = 183, sent = [req], printed = out\<rparr>)))"

text \<open>
  \<^verbatim>\<open>Do\<close>, lines 93--184. With a nil \<^verbatim>\<open>client\<close> the call \<^verbatim>\<open>s.client.NewRequest\<close> of line
  142 panics (the method reads the client it is called on).
\<close>

definition Do ::
  "('q, 'j, 'req, 'res, 'sh) collaborators \<Rightarrow> ('q, 'req, 'res) CountService \<Rightarrow> 'req run" where
  "Do env s =
     (case build_urls env s of
        Inl stop \<Rightarrow>
          \<lparr>result = Return 0 (Some (snd stop)), line = fst stop, sent = [], printed = []\<rparr>
      | Inr urls \<Rightarrow>
          (case client s of
             None \<Rightarrow> \<lparr>result = Panic, line = 142, sent = [], printed = []\<rparr>
           | Some cl \<Rightarrow>
               (case NewRequest cl ''POST'' urls of
                  Inl err \<Rightarrow>
                    \<lparr>result = Return 0 (Some err), line = 144, sent = [], printed = []\<rparr>
                | Inr req0 \<Rightarrow>
                    (let req = set_body env s req0;
                         out = dump (debug s) (DumpRequestOut env req)
                     in case c_Do cl req of
                          Inl err \<Rightarrow>
                            \<lparr>result = Return 0 (Some err), line = 162, sent = [req], printed = out\<rparr>
                        | Inr res \<Rightarrow> receive env s req out res))))"

subsection \<open>Example collaborators\<close>

text \<open>
  One concrete choice of everything left open above, to run \<^verbatim>\<open>Do\<close> on concrete
  services. A request is its method, its URL and its body; the body \<^verbatim>\<open>SetBodyJson\<close>
  sets is the JSON object, as the list of its keys with the JSON text of each value. A
  query object is what its \<^verbatim>\<open>Source()\<close> gives: a value that \<^verbatim>\<open>json.Marshal\<close> writes as
  a text, or one it rejects (a NaN or a channel inside the query). A response is its
  status and its body: \<open>Some n\<close> for the body \<^verbatim>\<open>{"count": n}\<close>, \<open>None\<close> for a body that is
  not JSON.
\<close>

record ex_request =
  req_method :: string
  req_url :: string
  req_body :: "(string \<times> string) list option"

record ex_response =
  status :: nat
  body_count :: "int64 option"

datatype ex_value = Marshals string | Unsupported

definition ex_Expand :: "string \<Rightarrow> (string \<rightharpoonup> string) \<Rightarrow> error + string" where
  "ex_Expand template vals =
     (case vals (filter (\<lambda>c. c \<noteq> CHR ''{'' \<and> c \<noteq> CHR ''}'') template) of
        Some v \<Rightarrow> Inr v
      | None \<Rightarrow> Inl (Error ''uritemplates: no value''))"

definition ex_SetBodyJson :: "ex_request \<Rightarrow> (string \<rightharpoonup> ex_value) \<Rightarrow> ex_request \<times> error option" where
  "ex_SetBodyJson req data =
     (case data ''query'' of
        Some (Marshals text) \<Rightarrow> (req\<lparr>req_body := Some [(''query'', text)]\<rparr>, None)
      | Some Unsupported \<Rightarrow> (req, Some (Error ''json: unsupported value''))
      | None \<Rightarrow> (req\<lparr>req_body := Some []\<rparr>, None))"

definition ex_checkResponse :: "ex_response \<Rightarrow> error option" where
  "ex_checkResponse res =
     (if 200 \<le> status res \<and> status res \<le> 299 then None else Some (Error ''elastic: error''))"

definition ex_Decode :: "ex_response \<Rightarrow> unit CountResult \<times> error option" where
  "ex_Decode res =
     (case body_count res of
        Some n \<Rightarrow> (\<lparr>Count = n, Shards = ()\<rparr>, None)
      | None \<Rightarrow> (\<lparr>Count = 0, Shards = ()\<rparr>, Some (Error ''invalid character'')))"

definition ex_env :: "(ex_value, ex_value, ex_request, ex_response, unit) collaborators" where
  "ex_env =
     \<lparr>Expand = ex_Expand, querySource = (\<lambda>q. q), SetBodyJson = ex_SetBodyJson,
      DumpRequestOut = req_url, checkResponse = ex_checkResponse,
      DumpResponse = (\<lambda>res. ''response''), Decode = ex_Decode\<rparr>"

text \<open>A client whose server answers every request with 200 and \<^verbatim>\<open>{"count": 42}\<close>.\<close>

definition ex_client :: "(ex_request, ex_response) Client" where
  "ex_client =
     \<lparr>NewRequest = (\<lambda>m u. Inr \<lparr>req_method = m, req_url = u, req_body = None\<rparr>),
      c_Do = (\<lambda>req. Inr \<lparr>status = 200, body_count = Some 42\<rparr>)\<rparr>"

text \<open>A client whose server cannot be reached.\<close>

definition ex_client_down :: "(ex_request, ex_response) Client" where
  "ex_client_down =
     \<lparr>NewRequest = (\<lambda>m u. Inr \<lparr>req_method = m, req_url = u, req_body = None\<rparr>),
      c_Do = (\<lambda>req. Inl (Error ''dial tcp: connection refused''))\<rparr>"

section \<open>Properties of FetchSourceContext\<close>

lemma Include_fields:
  "includes' (Include incs fsc) = includes' fsc @ incs"
  "excludes (Include incs fsc) = excludes fsc"
  "fetchSource (Include incs fsc) = fetchSource fsc"
  "transformSource (Include incs fsc) = transformSource fsc"
  by (simp_all add: Include_def)

lemma Exclude_fields:
  "includes' (Exclude excs fsc) = includes' fsc"
  "excludes (Exclude excs fsc) = excludes fsc @ excs"
  "fetchSource (Exclude excs fsc) = fetchSource fsc"
  "transformSource (Exclude excs fsc) = transformSource fsc"
  by (simp_all add: Exclude_def)

lemma foldl_apply_call_includes:
  "includes' (foldl apply_call fsc calls) = includes' fsc @ concat (map include_args calls)"
proof (induction calls arbitrary: fsc)
  case Nil
  show ?case by simp
next
  case (Cons c calls)
  show ?case by (cases c) (simp_all add: Cons.IH Include_fields Exclude_fields)
qed

lemma foldl_apply_call_excludes:
  "excludes (foldl apply_call fsc calls) = excludes fsc @ concat (map exclude_args calls)"
proof (induction calls arbitrary: fsc)
  case Nil
  show ?case by simp
next
  case (Cons c calls)
  show ?case by (cases c) (simp_all add: Cons.IH Include_fields Exclude_fields)
qed

lemma foldl_apply_call_flags:
  "fetchSource (foldl apply_call fsc calls) = fetchSource fsc \<and>
   transformSource (foldl apply_call fsc calls) = transformSource fsc"
proof (induction calls arbitrary: fsc)
  case Nil
  show ?case by simp
next
  case (Cons c calls)
  show ?case by (cases c) (simp_all add: Cons.IH Include_fields Exclude_fields)
qed

text \<open>
  C4. When the flag \<^verbatim>\<open>fetchSource\<close> is false, \<^verbatim>\<open>Source()\<close> returns the boolean
  \<^verbatim>\<open>false\<close>, whatever the two lists and the other flag hold.
\<close>

theorem Source_not_fetchSource:
  "\<not> fetchSource fsc \<Longrightarrow> Source fsc = SourceBool False"
  by (simp add: Source_def)

theorem Source_not_fetchSource_witness:
  "\<not> fetchSource (Exclude [''c''] (Include [''a'', ''b''] (NewFetchSourceContext False))) \<and>
   Source (Exclude [''c''] (Include [''a'', ''b''] (NewFetchSourceContext False))) = SourceBool False"
  using Source_not_fetchSource
    [of "Exclude [''c''] (Include [''a'', ''b''] (NewFetchSourceContext False))"]
  by (simp add: Exclude_def Include_def NewFetchSourceContext_def)

text \<open>
  C5. When the flag \<^verbatim>\<open>fetchSource\<close> is true, \<^verbatim>\<open>Source()\<close> returns a map whose keys are
  exactly \<^verbatim>\<open>includes\<close> and \<^verbatim>\<open>excludes\<close>, holding the two lists as they are (in insertion
  order, and present also when empty).
\<close>

theorem Source_fetchSource:
  "fetchSource fsc \<Longrightarrow>
     (case Source fsc of
        SourceBool b \<Rightarrow> False
      | SourceMap m \<Rightarrow>
          dom m = {''includes'', ''excludes''} \<and>
          m ''includes'' = Some (includes' fsc) \<and>
          m ''excludes'' = Some (excludes fsc))"
  by (auto simp add: Source_def)

theorem Source_fetchSource_witness:
  "fetchSource (Exclude [''c''] (Include [''a'', ''b''] (NewFetchSourceContext True))) \<and>
   (case Source (Exclude [''c''] (Include [''a'', ''b''] (NewFetchSourceContext True))) of
      SourceBool b \<Rightarrow> False
    | SourceMap m \<Rightarrow>
        dom m = {''includes'', ''excludes''} \<and>
        m ''includes'' = Some [''a'', ''b''] \<and>
        m ''excludes'' = Some [''c''])"
  using Source_fetchSource
    [of "Exclude [''c''] (Include [''a'', ''b''] (NewFetchSourceContext True))"]
  by (simp add: Exclude_def Include_def NewFetchSourceContext_def Source_def)

text \<open>
  C6. \<^verbatim>\<open>Include\<close> and \<^verbatim>\<open>Exclude\<close> only add: each call appends its arguments, in
  order and without removing duplicates, to the end of its own list, leaves the other
  list and the two flags as they were, and hands the context on to the next call of the
  chain. After any sequence of calls each list is what it was, followed by the arguments
  of the calls for that list in call order; \<^verbatim>\<open>Include("x").Include("y")\<close> on a new
  context leaves the includes \<^verbatim>\<open>["x", "y"]\<close>.
\<close>

theorem Include_Exclude_additive:
  "includes' (Include incs fsc) = includes' fsc @ incs \<and>
   excludes (Include incs fsc) = excludes fsc \<and>
   fetchSource (Include incs fsc) = fetchSource fsc \<and>
   transformSource (Include incs fsc) = transformSource fsc \<and>
   excludes (Exclude excs fsc) = excludes fsc @ excs \<and>
   includes' (Exclude excs fsc) = includes' fsc \<and>
   fetchSource (Exclude excs fsc) = fetchSource fsc \<and>
   transformSource (Exclude excs fsc) = transformSource fsc \<and>
   includes' (chain fsc calls) = includes' fsc @ concat (map include_args calls) \<and>
   excludes (chain fsc calls) = excludes fsc @ concat (map exclude_args calls) \<and>
   fetchSource (chain fsc calls) = fetchSource fsc \<and>
   transformSource (chain fsc calls) = transformSource fsc \<and>
   includes' (Include [''y''] (Include [''x''] (NewFetchSourceContext fs))) = [''x'', ''y''] \<and>
   includes' (Include [''x''] (Include [''x''] (NewFetchSourceContext fs))) = [''x'', ''x'']"
  by (simp add: Include_fields Exclude_fields chain_def foldl_apply_call_includes
      foldl_apply_call_excludes foldl_apply_call_flags NewFetchSourceContext_def)

text \<open>
  C9. \<^verbatim>\<open>Source()\<close> does not read the flag \<^verbatim>\<open>transformSource\<close>: two contexts with the
  same \<^verbatim>\<open>fetchSource\<close>, includes and excludes have the same \<^verbatim>\<open>Source()\<close>, whatever their
  \<^verbatim>\<open>transformSource\<close> flags are.
\<close>

theorem Source_ignores_transformSource:
  "fetchSource fsc1 = fetchSource fsc2 \<Longrightarrow> includes' fsc1 = includes' fsc2 \<Longrightarrow>
   excludes fsc1 = excludes fsc2 \<Longrightarrow> Source fsc1 = Source fsc2"
  by (simp add: Source_def)

theorem Source_ignores_transformSource_witness:
  "fetchSource (TransformSource True (Include [''a''] (NewFetchSourceContext True)))
     = fetchSource (TransformSource False (Include [''a''] (NewFetchSourceContext True))) \<and>
   includes' (TransformSource True (Include [''a''] (NewFetchSourceContext True)))
     = includes' (TransformSource False (Include [''a''] (NewFetchSourceContext True))) \<and>
   excludes (TransformSource True (Include [''a''] (NewFetchSourceContext True)))
     = excludes (TransformSource False (Include [''a''] (NewFetchSourceContext True))) \<and>
   transformSource (TransformSource True (Include [''a''] (NewFetchSourceContext True)))
     \<noteq> transformSource (TransformSource False (Include [''a''] (NewFetchSourceContext True))) \<and>
   Source (TransformSource True (Include [''a''] (NewFetchSourceContext True)))
     = Source (TransformSource False (Include [''a''] (NewFetchSourceContext True)))"
  using Source_ignores_transformSource
    [of "TransformSource True (Include [''a''] (NewFetchSourceContext True))"
        "TransformSource False (Include [''a''] (NewFetchSourceContext True))"]
  by (simp add: TransformSource_def Include_def NewFetchSourceContext_def)

section \<open>Properties of CountService\<close>

lemma Values_Encode_pretty: "Values_Encode [(''pretty'', [''true''])] = ''pretty=true''"
  by (simp add: Values_Encode_def QueryEscape_def escape_byte_def shouldEscape_def)

lemma build_params_eq:
  "build_params s = (if pretty s then [(''pretty'', [''true''])] else [])"
  by (simp add: build_params_def Values_Set_def Sprintf_v_def)

text \<open>
  C8. \<^verbatim>\<open>Query(q)\<close> replaces the stored query: after \<^verbatim>\<open>Query(a)\<close> and then
  \<^verbatim>\<open>Query(b)\<close> the stored query is \<^verbatim>\<open>b\<close>, and a call of \<^verbatim>\<open>Query\<close> leaves the indices,
  the types, the two flags and the client as they were.
\<close>

theorem Query_replaces:
  "query (Query b (Query a s)) = b \<and>
   query (Query q s) = q \<and>
   indices (Query q s) = indices s \<and>
   types (Query q s) = types s \<and>
   pretty (Query q s) = pretty s \<and>
   debug (Query q s) = debug s \<and>
   client (Query q s) = client s"
  by (simp add: Query_def)

text \<open>
  C2. Whenever \<^verbatim>\<open>Do\<close> returns an error that is not nil, the \<^verbatim>\<open>int64\<close> it returns with it
  is zero.
\<close>

theorem Do_error_zero_count:
  "result (Do env s) = Return n (Some err) \<Longrightarrow> n = 0"
  by (auto simp add: Do_def receive_def Let_def split: sum.splits option.splits)

theorem Do_error_zero_count_witness:
  "result (Do ex_env (Index ''idx1'' (NewCountService (Some ex_client_down))))
     = Return 0 (Some (Error ''dial tcp: connection refused'')) \<and> (0::int64) = 0"
proof -
  have ret: "result (Do ex_env (Index ''idx1'' (NewCountService (Some ex_client_down))))
     = Return 0 (Some (Error ''dial tcp: connection refused''))"
    by (simp add: Do_def build_urls_def build_path_def build_params_def set_body_def dump_def
        Index_def NewCountService_def ex_env_def ex_Expand_def ex_client_down_def)
  from Do_error_zero_count [OF ret] ret show ?thesis by simp
qed

text \<open>
  C10. Once the response has passed \<^verbatim>\<open>checkResponse\<close> and its body has been decoded
  without error, \<^verbatim>\<open>Do\<close> returns the decoded \<^verbatim>\<open>Count\<close> with a nil error, from line 180;
  and no call of \<^verbatim>\<open>Do\<close> ends at the \<^verbatim>\<open>return int64(0), nil\<close> of line 183, because
  \<^verbatim>\<open>ret\<close> is never nil.
\<close>

theorem Do_decoded_returns_Count:
  "line (Do env s) \<noteq> 183 \<and>
   (build_urls env s = Inr urls \<and> client s = Some cl \<and> NewRequest cl ''POST'' urls = Inr req0 \<and>
    c_Do cl (set_body env s req0) = Inr res \<and> checkResponse env res = None \<and>
    Decode env res = (r, None)
    \<longrightarrow> result (Do env s) = Return (Count r) None \<and> line (Do env s) = 180)"
proof
  show "line (Do env s) \<noteq> 183"
    by (auto simp add: Do_def receive_def build_urls_def build_path_def Let_def
        split: sum.splits option.splits)
next
  show "build_urls env s = Inr urls \<and> client s = Some cl \<and> NewRequest cl ''POST'' urls = Inr req0 \<and>
    c_Do cl (set_body env s req0) = Inr res \<and> checkResponse env res = None \<and>
    Decode env res = (r, None)
    \<longrightarrow> result (Do env s) = Return (Count r) None \<and> line (Do env s) = 180"
    by (simp add: Do_def receive_def Let_def)
qed

theorem Do_decoded_returns_Count_witness:
  "line (Do ex_env (Index ''idx1'' (NewCountService (Some ex_client)))) \<noteq> 183 \<and>
   build_urls ex_env (Index ''idx1'' (NewCountService (Some ex_client))) = Inr ''/idx1/_count'' \<and>
   client (Index ''idx1'' (NewCountService (Some ex_client)) :: (ex_value, ex_request, ex_response) CountService)
     = Some ex_client \<and>
   NewRequest ex_client ''POST'' ''/idx1/_count''
     = Inr \<lparr>req_method = ''POST'', req_url = ''/idx1/_count'', req_body = None\<rparr> \<and>
   c_Do ex_client
      (set_body ex_env (Index ''idx1'' (NewCountService (Some ex_client)))
         \<lparr>req_method = ''POST'', req_url = ''/idx1/_count'', req_body = None\<rparr>)
     = Inr \<lparr>status = 200, body_count = Some 42\<rparr> \<and>
   checkResponse ex_env \<lparr>status = 200, body_count = Some 42\<rparr> = None \<and>
   Decode ex_env \<lparr>status = 200, body_count = Some 42\<rparr> = (\<lparr>Count = 42, Shards = ()\<rparr>, None) \<and>
   result (Do ex_env (Index ''idx1'' (NewCountService (Some ex_client)))) = Return 42 None \<and>
   line (Do ex_env (Index ''idx1'' (NewCountService (Some ex_client)))) = 180"
proof -
  let ?s = "Index ''idx1'' (NewCountService (Some ex_client)) :: (ex_value, ex_request, ex_response) CountService"
  let ?req = "\<lparr>req_method = ''POST'', req_url = ''/idx1/_count'', req_body = None\<rparr>"
  let ?res = "\<lparr>status = 200, body_count = Some 42\<rparr>"
  have urls: "build_urls ex_env ?s = Inr ''/idx1/_count''"
    by (simp add: build_urls_def build_path_def build_params_def Index_def NewCountService_def
        ex_env_def ex_Expand_def)
  have cl: "client ?s = Some ex_client"
    by (simp add: Index_def NewCountService_def)
  have nr: "NewRequest ex_client ''POST'' ''/idx1/_count'' = Inr ?req"
    by (simp add: ex_client_def)
  have tr: "c_Do ex_client (set_body ex_env ?s ?req) = Inr ?res"
    by (simp add: ex_client_def)
  have chk: "checkResponse ex_env ?res = None"
    by (simp add: ex_env_def ex_checkResponse_def)
  have dec: "Decode ex_env ?res = (\<lparr>Count = 42, Shards = ()\<rparr>, None)"
    by (simp add: ex_env_def ex_Decode_def)
  from Do_decoded_returns_Count
    [of ex_env ?s "''/idx1/_count''" ex_client ?req ?res "\<lparr>Count = 42, Shards = ()\<rparr>"]
    urls cl nr tr chk dec
  show ?thesis by simp
qed

text \<open>
  The path in general: the slash, the joined index part, then the joined types part
  behind a slash of its own when there is one, then \<^verbatim>\<open>/_count\<close>. The first slash is
  there whether or not there is an index part.
\<close>

lemma build_path_shape:
  "expand_range (\<lambda>index. Expand env ''{index}'' [''index'' \<mapsto> index]) (indices s) [] = Inr indexPart \<Longrightarrow>
   expand_range (\<lambda>typ. Expand env ''{type}'' [''type'' \<mapsto> typ]) (types s) [] = Inr typesPart \<Longrightarrow>
   build_path env s =
     Inr (''/'' @ strings_Join indexPart '','' @
          (if typesPart = [] then [] else ''/'' @ strings_Join typesPart '','') @ ''/_count'')"
  by (cases indexPart) (simp_all add: build_path_def)

lemma build_path_idx1_idx2:
  "build_path ex_env (Indices [''idx1'', ''idx2''] (NewCountService cl)) = Inr ''/idx1,idx2/_count''"
  by (simp add: build_path_def Indices_def NewCountService_def ex_env_def ex_Expand_def)

lemma build_path_types_only:
  "build_path ex_env (Type ''t'' (NewCountService cl)) = Inr ''//t/_count''"
  by (simp add: build_path_def Type_def NewCountService_def ex_env_def ex_Expand_def)

lemma strings_Join_set: "set (strings_Join xs sep) \<subseteq> set (concat xs) \<union> set sep"
  by (induction xs sep rule: strings_Join.induct) auto

lemma no_question_mark_in_path:
  assumes "CHR ''?'' \<notin> set (concat indexPart)" and "CHR ''?'' \<notin> set (concat typesPart)"
  shows "CHR ''?'' \<notin> set (''/'' @ strings_Join indexPart '','' @
           (if typesPart = [] then [] else ''/'' @ strings_Join typesPart '','') @ ''/_count'')"
proof -
  have "CHR ''?'' \<notin> set (strings_Join indexPart '','')"
    using assms(1) strings_Join_set [of indexPart "'',''"] by auto
  moreover have "CHR ''?'' \<notin> set (strings_Join typesPart '','')"
    using assms(2) strings_Join_set [of typesPart "'',''"] by auto
  ultimately show ?thesis by simp
qed

text \<open>
  C7. The only query-string parameter \<^verbatim>\<open>Do\<close> ever sets is \<^verbatim>\<open>pretty\<close>, with the value
  \<^verbatim>\<open>true\<close>, and it sets it exactly when the flag \<^verbatim>\<open>pretty\<close> is true. The URL \<^verbatim>\<open>Do\<close>
  gives to \<^verbatim>\<open>NewRequest\<close>, with the method \<^verbatim>\<open>POST\<close>, is the path followed by
  \<^verbatim>\<open>?pretty=true\<close> when the flag is true and the path alone when it is false, and the
  request \<^verbatim>\<open>Do\<close> hands to the HTTP client is the one \<^verbatim>\<open>NewRequest\<close> made for that URL
  (with the body set, if there is a query). Where no expanded name holds a question mark,
  the URL holds one exactly when the flag is true: with the flag false it has no query
  string at all.
\<close>

theorem Do_pretty_param:
  "build_params s = (if pretty s then [(''pretty'', [''true''])] else []) \<and>
   build_urls env s =
     (case build_path env s of
        Inl stop \<Rightarrow> Inl stop
      | Inr path \<Rightarrow> Inr (if pretty s then path @ ''?pretty=true'' else path)) \<and>
   (build_path env s = Inr path \<and> client s = Some cl \<and>
    NewRequest cl ''POST'' (if pretty s then path @ ''?pretty=true'' else path) = Inr req0
    \<longrightarrow> sent (Do env s) = [set_body env s req0]) \<and>
   (expand_range (\<lambda>index. Expand env ''{index}'' [''index'' \<mapsto> index]) (indices s) [] = Inr indexPart \<and>
    expand_range (\<lambda>typ. Expand env ''{type}'' [''type'' \<mapsto> typ]) (types s) [] = Inr typesPart \<and>
    CHR ''?'' \<notin> set (concat indexPart) \<and> CHR ''?'' \<notin> set (concat typesPart)
    \<longrightarrow> (\<exists>urls. build_urls env s = Inr urls \<and> (CHR ''?'' \<in> set urls) = pretty s))"
proof (intro conjI impI)
  show "build_params s = (if pretty s then [(''pretty'', [''true''])] else [])"
    by (rule build_params_eq)
next
  show urls: "build_urls env s =
     (case build_path env s of
        Inl stop \<Rightarrow> Inl stop
      | Inr path \<Rightarrow> Inr (if pretty s then path @ ''?pretty=true'' else path))"
    by (simp add: build_urls_def build_params_eq Values_Encode_pretty split: sum.splits)
  {
    assume h: "build_path env s = Inr path \<and> client s = Some cl \<and>
      NewRequest cl ''POST'' (if pretty s then path @ ''?pretty=true'' else path) = Inr req0"
    from h urls have u: "build_urls env s = Inr (if pretty s then path @ ''?pretty=true'' else path)"
      by simp
    from h u show "sent (Do env s) = [set_body env s req0]"
      by (cases "pretty s")
         (simp_all add: Do_def receive_def Let_def split: sum.splits option.splits)
  }
  {
    assume h: "expand_range (\<lambda>index. Expand env ''{index}'' [''index'' \<mapsto> index]) (indices s) [] = Inr indexPart \<and>
      expand_range (\<lambda>typ. Expand env ''{type}'' [''type'' \<mapsto> typ]) (types s) [] = Inr typesPart \<and>
      CHR ''?'' \<notin> set (concat indexPart) \<and> CHR ''?'' \<notin> set (concat typesPart)"
    let ?path = "''/'' @ strings_Join indexPart '','' @
           (if typesPart = [] then [] else ''/'' @ strings_Join typesPart '','') @ ''/_count''"
    from h have p: "build_path env s = Inr ?path"
      by (simp only: build_path_shape)
    from h have "CHR ''?'' \<notin> set (concat indexPart)" and "CHR ''?'' \<notin> set (concat typesPart)"
      by simp_all
    then have nq: "CHR ''?'' \<notin> set ?path"
      by (rule no_question_mark_in_path)
    from p urls have u: "build_urls env s = Inr (if pretty s then ?path @ ''?pretty=true'' else ?path)"
      by simp
    from nq have "(CHR ''?'' \<in> set (if pretty s then ?path @ ''?pretty=true'' else ?path)) = pretty s"
      by (cases "pretty s") simp_all
    with u show "\<exists>urls. build_urls env s = Inr urls \<and> (CHR ''?'' \<in> set urls) = pretty s"
      by blast
  }
qed

theorem Do_pretty_param_witness:
  "build_path ex_env (Pretty True (Index ''idx1'' (NewCountService (Some ex_client))))
     = Inr ''/idx1/_count'' \<and>
   client (Pretty True (Index ''idx1'' (NewCountService (Some ex_client)))
            :: (ex_value, ex_request, ex_response) CountService) = Some ex_client \<and>
   NewRequest ex_client ''POST'' ''/idx1/_count?pretty=true''
     = Inr \<lparr>req_method = ''POST'', req_url = ''/idx1/_count?pretty=true'', req_body = None\<rparr> \<and>
   sent (Do ex_env (Pretty True (Index ''idx1'' (NewCountService (Some ex_client)))))
     = [\<lparr>req_method = ''POST'', req_url = ''/idx1/_count?pretty=true'', req_body = None\<rparr>] \<and>
   expand_range (\<lambda>index. Expand ex_env ''{index}'' [''index'' \<mapsto> index]) [''idx1''] [] = Inr [''idx1''] \<and>
   expand_range (\<lambda>typ. Expand ex_env ''{type}'' [''type'' \<mapsto> typ]) [] [] = Inr [] \<and>
   CHR ''?'' \<notin> set (concat [''idx1'']) \<and>
   build_urls ex_env (Pretty True (Index ''idx1'' (NewCountService (Some ex_client))))
     = Inr ''/idx1/_count?pretty=true'' \<and>
   pretty (Pretty True (Index ''idx1'' (NewCountService (Some ex_client)))
            :: (ex_value, ex_request, ex_response) CountService) \<and>
   sent (Do ex_env (Index ''idx1'' (NewCountService (Some ex_client))))
     = [\<lparr>req_method = ''POST'', req_url = ''/idx1/_count'', req_body = None\<rparr>]"
proof -
  let ?s = "Pretty True (Index ''idx1'' (NewCountService (Some ex_client)))
              :: (ex_value, ex_request, ex_response) CountService"
  let ?t = "Index ''idx1'' (NewCountService (Some ex_client))
              :: (ex_value, ex_request, ex_response) CountService"
  let ?req = "\<lparr>req_method = ''POST'', req_url = ''/idx1/_count?pretty=true'', req_body = None\<rparr>"
  let ?req' = "\<lparr>req_method = ''POST'', req_url = ''/idx1/_count'', req_body = None\<rparr>"
  have path: "build_path ex_env ?s = Inr ''/idx1/_count''"
    by (simp add: build_path_def Pretty_def Index_def NewCountService_def ex_env_def ex_Expand_def)
  have path': "build_path ex_env ?t = Inr ''/idx1/_count''"
    by (simp add: build_path_def Index_def NewCountService_def ex_env_def ex_Expand_def)
  have cl: "client ?s = Some ex_client" and cl': "client ?t = Some ex_client"
    by (simp_all add: Pretty_def Index_def NewCountService_def)
  have pr: "pretty ?s" and pr': "\<not> pretty ?t"
    by (simp_all add: Pretty_def Index_def NewCountService_def)
  have nr: "NewRequest ex_client ''POST'' ''/idx1/_count?pretty=true'' = Inr ?req"
    and nr': "NewRequest ex_client ''POST'' ''/idx1/_count'' = Inr ?req'"
    by (simp_all add: ex_client_def)
  have body: "set_body ex_env ?s ?req = ?req" and body': "set_body ex_env ?t ?req' = ?req'"
    by (simp_all add: set_body_def Pretty_def Index_def NewCountService_def)
  have ei: "expand_range (\<lambda>index. Expand ex_env ''{index}'' [''index'' \<mapsto> index]) [''idx1''] []
              = Inr [''idx1'']"
    and et: "expand_range (\<lambda>typ. Expand ex_env ''{type}'' [''type'' \<mapsto> typ]) [] [] = Inr []"
    by (simp_all add: ex_env_def ex_Expand_def)
  have nq: "CHR ''?'' \<notin> set (concat [''idx1''])"
    by simp
  note th = Do_pretty_param [of ?s ex_env "''/idx1/_count''" ex_client ?req "[''idx1'']" "[]"]
  note th' = Do_pretty_param [of ?t ex_env "''/idx1/_count''" ex_client ?req' "[''idx1'']" "[]"]
  from th path cl pr nr body have sent: "sent (Do ex_env ?s) = [?req]"
    by simp
  from th path pr have urls: "build_urls ex_env ?s = Inr ''/idx1/_count?pretty=true''"
    by simp
  from th' path' cl' pr' nr' body' have sent': "sent (Do ex_env ?t) = [?req']"
    by simp
  from path cl nr sent ei et nq urls pr sent' show ?thesis
    by simp
qed

text \<open>
  C3, at a service with no indices and no types: the path \<^verbatim>\<open>Do\<close> builds is
  \<^verbatim>\<open>//_count\<close>, with two slashes, whatever \<^verbatim>\<open>Expand\<close> does, and that is the URL of the
  request it sends.
\<close>

theorem Do_path_no_indices_no_types:
  "build_path env (NewCountService cl) = Inr ''//_count'' \<and>
   build_urls env (NewCountService cl) = Inr ''//_count'' \<and>
   sent (Do ex_env (NewCountService (Some ex_client)))
     = [\<lparr>req_method = ''POST'', req_url = ''//_count'', req_body = None\<rparr>]"
  by (simp add: Do_def receive_def build_urls_def build_path_def build_params_def set_body_def
      dump_def NewCountService_def ex_env_def ex_client_def ex_checkResponse_def ex_Decode_def)

text \<open>
  The error \<^verbatim>\<open>SetBodyJson\<close> returns never reaches the result of \<^verbatim>\<open>Do\<close>: a
  \<^verbatim>\<open>SetBodyJson\<close> that leaves the request the same and reports no error gives the same
  run.
\<close>

lemma Do_drops_SetBodyJson_error:
  "Do (env\<lparr>SetBodyJson := \<lambda>req data. (fst (SetBodyJson env req data), None)\<rparr>) s = Do env s"
  by (simp add: Do_def receive_def build_urls_def build_path_def set_body_def
      cong: sum.case_cong option.case_cong)

text \<open>
  C1, at a service whose query cannot be written as JSON: \<^verbatim>\<open>SetBodyJson\<close> reports the
  error and leaves the request without a body, and \<^verbatim>\<open>Do\<close> sends that request all the
  same and returns the count of the response, 42, with a nil error.
\<close>

theorem Do_unserializable_query:
  "SetBodyJson ex_env \<lparr>req_method = ''POST'', req_url = ''/idx1/_count'', req_body = None\<rparr>
       [''query'' \<mapsto> querySource ex_env Unsupported]
     = (\<lparr>req_method = ''POST'', req_url = ''/idx1/_count'', req_body = None\<rparr>,
        Some (Error ''json: unsupported value'')) \<and>
   Do ex_env (Query (Some Unsupported) (Index ''idx1'' (NewCountService (Some ex_client))))
     = \<lparr>result = Return 42 None, line = 180,
        sent = [\<lparr>req_method = ''POST'', req_url = ''/idx1/_count'', req_body = None\<rparr>],
        printed = []\<rparr>"
  by (simp add: Do_def receive_def build_urls_def build_path_def build_params_def set_body_def
      dump_def Query_def Index_def NewCountService_def ex_env_def ex_Expand_def ex_SetBodyJson_def
      ex_client_def ex_checkResponse_def ex_Decode_def)

end
